theory Spec2Isabelle
  imports Main
begin

section \<open>Comment resolution and extraction (src/lib/converter/comments/index.ts)\<close>

text \<open>
  The module keeps one process-wide cache of parsed comments and hands out copies of
  the cached objects. Comment objects are mutable and have identity, so they live in an
  explicit store: an address is a natural number, the store maps every address to the
  value of the object there, and \<open>nxt\<close> is the first address that has not been
  allocated yet. Exceptions are values of a sum type; the logger is a list of entries.
\<close>

subsection \<open>The Comment model\<close>

type_synonym display_parts = "string list"

text \<open>Modelled from the spec: the classes \<open>Comment\<close> and its tags come from
  \<open>../../models\<close>, which is not part of the sources at hand. A tag carries its
  tag-name token (such as \<open>@param\<close>), the name of the entity it documents when it has
  one, and its content; a comment has summary content, an ordered sequence of tags and a
  set of modifier markers.
\<close>

record Tag =
  tag_name :: string
  ident :: "string option"
  content :: display_parts

record Comment =
  summary :: display_parts
  tags :: "Tag list"
  modifiers :: "string set"

text \<open>Modelled from the spec: \<open>new Comment(content)\<close> builds a comment from content alone;
  with absent content the summary is empty.
\<close>

definition new_Comment :: "display_parts option \<Rightarrow> Comment" where
  "new_Comment c =
     \<lparr>summary = (case c of None \<Rightarrow> [] | Some parts \<Rightarrow> parts), tags = [], modifiers = {}\<rparr>"

text \<open>Modelled from the spec: \<open>hasModifier\<close> tests the presence of a modifier marker,
  \<open>getTag\<close> returns the first tag with the given tag-name token, and
  \<open>getIdentifiedTag\<close> the first tag matching both the target name and the token.
\<close>

definition hasModifier :: "Comment \<Rightarrow> string \<Rightarrow> bool" where
  "hasModifier c m = (m \<in> modifiers c)"

definition getTag :: "Comment \<Rightarrow> string \<Rightarrow> Tag option" where
  "getTag c tagName = find (\<lambda>t. tag_name t = tagName) (tags c)"

definition getIdentifiedTag :: "Comment \<Rightarrow> string \<Rightarrow> string \<Rightarrow> Tag option" where
  "getIdentifiedTag c identifier tagName =
     find (\<lambda>t. tag_name t = tagName \<and> ident t = Some identifier) (tags c)"

subsection \<open>Syntax tree data\<close>

text \<open>A source file is an object: \<open>file_id\<close> stands for its identity, the key of the WeakMap.\<close>

record SourceFile =
  file_id :: nat
  fileName :: string
  "text" :: string

datatype CommentKind = SingleLineCommentTrivia | MultiLineCommentTrivia

record CommentRange =
  kind :: CommentKind
  pos :: int
  endpos :: int

datatype SyntaxKind = SK_SourceFile | SK_JSDoc | SK_Other nat

record Node =
  node_kind :: SyntaxKind
  node_pos :: int
  node_end :: int

definition isSourceFile :: "Node \<Rightarrow> bool" where
  "isSourceFile n = (node_kind n = SK_SourceFile)"

definition isJSDoc :: "Node \<Rightarrow> bool" where
  "isJSDoc n = (node_kind n = SK_JSDoc)"

record Symbol =
  symbol_name :: string
  declarations :: "Node list option"

type_synonym ReflectionKind = nat
type_synonym SignatureDeclaration = nat

text \<open>
  The \<open>comment\<close> property of a JSDoc tag is a string, a node array or undefined; only
  its truthiness is used (an empty string is falsy, an array is truthy).
\<close>

datatype JSDocText = NoComment | CommentString string | CommentNodes "string list"

fun truthy :: "JSDocText \<Rightarrow> bool" where
  "truthy NoComment = False"
| "truthy (CommentString str) = (str \<noteq> [])"
| "truthy (CommentNodes ns) = True"

text \<open>
  The five declaration types of \<open>getJsDocComment\<close>: an enum tag, a template tag with its
  comment and the names of its type parameters, and the tags with an optional name
  (property-like, callback and typedef tags; the field holds \<open>name?.getText()\<close>).
\<close>

datatype JSDocShape =
    JSDocEnumTag
  | JSDocTemplateTag JSDocText "string list"
  | JSDocNamedTag "string option"

record JSDocDeclaration =
  sourceFile :: SourceFile
  ancestors :: "Node list"
  tagName :: string
  shape :: JSDocShape

subsection \<open>State, errors and collaborators\<close>

datatype error = Thrown string | TypeError

datatype log_entry =
    Warn string "JSDocDeclaration option"
  | Error string "JSDocDeclaration option"

type_synonym addr = nat

text \<open>
  \<open>commentCache\<close> is the WeakMap from source files to maps from start offsets to
  Comment objects. \<open>parses\<close> is an observation, not data of the program: the keys for
  which \<open>parseComment\<close> has been called, in order.
\<close>

record state =
  heap :: "addr \<Rightarrow> Comment"
  nxt :: addr
  commentCache :: "nat \<rightharpoonup> (int \<rightharpoonup> addr)"
  log :: "log_entry list"
  parses :: "(nat \<times> int) list"

definition init_state :: state where
  "init_state =
     \<lparr>heap = (\<lambda>_. new_Comment None), nxt = 0, commentCache = Map.empty, log = [], parses = []\<rparr>"

record CommentParserConfig =
  blockTags :: "string set"
  inlineTags :: "string set"
  modifierTags :: "string set"

text \<open>
  The imported collaborators are parameters. \<open>discoverComment\<close> receives the logger, so
  it returns what it logs beside its result; \<open>parseComment\<close> returns the comment and the
  messages it passes to its warning callback, in order;
  \<open>getLineAndCharacterOfPosition\<close> gives the line component only.
\<close>

record 'tok env =
  discoverComment ::
    "Symbol \<Rightarrow> ReflectionKind \<Rightarrow> (SourceFile \<times> CommentRange) option \<times> log_entry list"
  discoverSignatureComment :: "SignatureDeclaration \<Rightarrow> (SourceFile \<times> CommentRange) option"
  lexBlockComment :: "string \<Rightarrow> int \<Rightarrow> int \<Rightarrow> 'tok"
  parseComment :: "'tok \<Rightarrow> CommentParserConfig \<Rightarrow> Comment \<times> string list"
  getLineAndCharacterOfPosition :: "SourceFile \<Rightarrow> int \<Rightarrow> nat"
  nicePath :: "string \<Rightarrow> string"

subsection \<open>Store operations\<close>

definition alloc :: "Comment \<Rightarrow> state \<Rightarrow> addr \<times> state" where
  "alloc c s = (nxt s, s\<lparr>heap := (heap s)(nxt s := c), nxt := Suc (nxt s)\<rparr>)"

text \<open>Modelled from the spec: \<open>clone\<close> produces an independent deep copy, a new object
  with the value of the old one.
\<close>

definition clone :: "addr \<Rightarrow> state \<Rightarrow> addr \<times> state" where
  "clone a s = alloc (heap s a) s"


subsection \<open>getCommentWithCache\<close>

text \<open>The decimal digits of a line number, as the template literal renders it.\<close>

definition digit :: "nat \<Rightarrow> char" where
  "digit d = ''0123456789'' ! d"

fun string_of_nat :: "nat \<Rightarrow> string" where
  "string_of_nat n =
     (if n < 10 then [digit n] else string_of_nat (n div 10) @ [digit (n mod 10)])"

declare string_of_nat.simps [simp del]

definition warning_text :: "'tok env \<Rightarrow> SourceFile \<Rightarrow> nat \<Rightarrow> string \<Rightarrow> string" where
  "warning_text env file line warning =
     warning @ '' in comment at '' @ nicePath env (fileName file) @ '':'' @
     string_of_nat line @ ''.''"

text \<open>
  The shared core returns a reference to a Comment object, or undefined when nothing was
  discovered. On a hit it clones the cached object. On a miss it dispatches on the kind
  of the range: a block comment is lexed and parsed, every warning of the parser goes to
  the logger with the place appended, the parsed object is stored in the cache and a
  clone of it is returned; a line comment makes it throw a string, before anything is
  stored. The type of \<open>range.kind\<close> has these two values only, so the \<open>default\<close> branch
  with \<open>assertNever\<close> has no input.
\<close>

definition getCommentWithCache ::
  "'tok env \<Rightarrow> (SourceFile \<times> CommentRange) option \<Rightarrow> CommentParserConfig \<Rightarrow> state
     \<Rightarrow> (error + addr option) \<times> state" where
  "getCommentWithCache env discovered config s =
     (case discovered of
        None \<Rightarrow> (Inr None, s)
      | Some (file, rng) \<Rightarrow>
          let cache = (case commentCache s (file_id file) of
                         Some m \<Rightarrow> m | None \<Rightarrow> Map.empty)
          in (case cache (pos rng) of
                Some c \<Rightarrow> (let (a, s') = clone c s in (Inr (Some a), s'))
              | None \<Rightarrow>
                  let line = getLineAndCharacterOfPosition env file (pos rng) + 1
                  in (case kind rng of
                        MultiLineCommentTrivia \<Rightarrow>
                          let (parsed, warnings) =
                                parseComment env
                                  (lexBlockComment env (text file) (pos rng) (endpos rng))
                                  config;
                              s1 = s\<lparr>log := log s @
                                        map (\<lambda>w. Warn (warning_text env file line w) None)
                                          warnings,
                                      parses := parses s @ [(file_id file, pos rng)]\<rparr>;
                              (comment, s2) = alloc parsed s1;
                              s3 = s2\<lparr>commentCache := (commentCache s2)
                                        (file_id file \<mapsto> cache(pos rng \<mapsto> comment))\<rparr>;
                              (a, s4) = clone comment s3
                          in (Inr (Some a), s4)
                      | SingleLineCommentTrivia \<Rightarrow> (Inl (Thrown ''GERRIT FIX ME''), s))))"

subsection \<open>getComment and getSignatureComment\<close>

definition someIsSourceFile :: "Symbol \<Rightarrow> bool" where
  "someIsSourceFile symbol =
     (case declarations symbol of None \<Rightarrow> False | Some ds \<Rightarrow> list_ex isSourceFile ds)"

text \<open>The guards of the two \<open>if\<close> statements of \<open>getComment\<close>.\<close>

definition module_check_applies :: "Symbol \<Rightarrow> addr option \<Rightarrow> bool" where
  "module_check_applies symbol comment = (someIsSourceFile symbol \<and> comment \<noteq> None)"

definition nonmodule_check_applies :: "Symbol \<Rightarrow> addr option \<Rightarrow> bool" where
  "nonmodule_check_applies symbol comment = (\<not> someIsSourceFile symbol \<and> comment \<noteq> None)"

text \<open>
  The test \<open>comment.hasModifier("@packageDocumentation") || comment.getTag("@module")\<close>
  on the object a reference points to.
\<close>

definition is_module_comment :: "Comment \<Rightarrow> bool" where
  "is_module_comment c =
     (hasModifier c ''@packageDocumentation'' \<or> getTag c ''@module'' \<noteq> None)"

definition carries_module_marker :: "state \<Rightarrow> addr option \<Rightarrow> bool" where
  "carries_module_marker s comment =
     (case comment of None \<Rightarrow> False | Some a \<Rightarrow> is_module_comment (heap s a))"

definition getComment ::
  "'tok env \<Rightarrow> Symbol \<Rightarrow> ReflectionKind \<Rightarrow> CommentParserConfig \<Rightarrow> state
     \<Rightarrow> (error + addr option) \<times> state" where
  "getComment env symbol rkind config s =
     (let (discovered, logged) = discoverComment env symbol rkind;
          (r, s1) = getCommentWithCache env discovered config (s\<lparr>log := log s @ logged\<rparr>)
      in (case r of
            Inl e \<Rightarrow> (Inl e, s1)
          | Inr comment \<Rightarrow>
              if module_check_applies symbol comment \<and> \<not> carries_module_marker s1 comment
              then (Inr None, s1)
              else if nonmodule_check_applies symbol comment \<and> carries_module_marker s1 comment
              then (Inr None, s1)
              else (Inr comment, s1)))"


subsection \<open>getJsDocComment\<close>

text \<open>
  The loop \<open>while (!ts.isJSDoc(parent)) parent = parent.parent\<close>. The field
  \<open>ancestors\<close> lists \<open>declaration.parent\<close>, its parent, and so on up to the root; past
  the root \<open>parent\<close> is undefined and \<open>ts.isJSDoc\<close> reads a property of undefined.
\<close>

fun findJSDoc :: "Node list \<Rightarrow> error + Node" where
  "findJSDoc [] = Inl TypeError"
| "findJSDoc (parent # rest) = (if isJSDoc parent then Inr parent else findJSDoc rest)"

definition ambiguous_template :: "JSDocShape \<Rightarrow> bool" where
  "ambiguous_template sh =
     (case sh of
        JSDocTemplateTag c typeParameters \<Rightarrow> truthy c \<and> length typeParameters > 1
      | _ \<Rightarrow> False)"

text \<open>
  The variable \<open>name\<close>: the text of the first type parameter's name for a template tag
  (reading element 0 of an empty array gives undefined, whose \<open>name\<close> cannot be read),
  \<open>declaration.name?.getText()\<close> otherwise.
\<close>

definition targetName :: "JSDocShape \<Rightarrow> error + string option" where
  "targetName sh =
     (case sh of
        JSDocTemplateTag c typeParameters \<Rightarrow>
          (case typeParameters of [] \<Rightarrow> Inl TypeError | tp # _ \<Rightarrow> Inr (Some tp))
      | JSDocNamedTag n \<Rightarrow> Inr n
      | JSDocEnumTag \<Rightarrow> Inr None)"

definition template_warning :: string where
  "template_warning =
     ''TypeDoc does not support multiple type parameters defined in a single @template tag with a comment.''"

definition bug_report :: "string \<Rightarrow> string" where
  "bug_report name =
     ''Failed to find JSDoc tag for '' @ name @
     '' after parsing comment, please file a bug report.''"

definition block_range :: "Node \<Rightarrow> CommentRange" where
  "block_range parent =
     \<lparr>kind = MultiLineCommentTrivia, pos = node_pos parent, endpos = node_end parent\<rparr>"

definition getJsDocComment ::
  "'tok env \<Rightarrow> JSDocDeclaration \<Rightarrow> CommentParserConfig \<Rightarrow> state
     \<Rightarrow> (error + addr option) \<times> state" where
  "getJsDocComment env declaration config s =
     (case findJSDoc (ancestors declaration) of
        Inl e \<Rightarrow> (Inl e, s)
      | Inr parent \<Rightarrow>
          (case getCommentWithCache env
                  (Some (sourceFile declaration, block_range parent)) config s of
             (Inl e, s1) \<Rightarrow> (Inl e, s1)
           | (Inr comment, s1) \<Rightarrow>
               if shape declaration = JSDocEnumTag then
                 (case comment of
                    None \<Rightarrow> (Inl TypeError, s1)
                  | Some c \<Rightarrow>
                      let (a, s2) =
                            alloc (new_Comment (map_option content (getTag (heap s1 c) ''@enum'')))
                              s1
                      in (Inr (Some a), s2))
               else if ambiguous_template (shape declaration) then
                 (Inr None, s1\<lparr>log := log s1 @ [Warn template_warning (Some declaration)]\<rparr>)
               else
                 (case targetName (shape declaration) of
                    Inl e \<Rightarrow> (Inl e, s1)
                  | Inr None \<Rightarrow> (Inr None, s1)
                  | Inr (Some name) \<Rightarrow>
                      if name = [] then (Inr None, s1)
                      else
                        (case comment of
                           None \<Rightarrow> (Inl TypeError, s1)
                         | Some c \<Rightarrow>
                             (case getIdentifiedTag (heap s1 c) name
                                     (CHR ''@'' # tagName declaration) of
                                None \<Rightarrow>
                                  (Inr None,
                                   s1\<lparr>log := log s1 @
                                           [Error (bug_report name) (Some declaration)]\<rparr>)
                              | Some t \<Rightarrow>
                                  let (a, s2) = alloc (new_Comment (Some (content t))) s1
                                  in (Inr (Some a), s2))))))"

subsection \<open>Reading the state\<close>

definition cache_lookup :: "state \<Rightarrow> nat \<Rightarrow> int \<Rightarrow> addr option" where
  "cache_lookup s fid p = (case commentCache s fid of None \<Rightarrow> None | Some m \<Rightarrow> m p)"

text \<open>The canonical value stored for a key.\<close>

definition canonical :: "state \<Rightarrow> nat \<Rightarrow> int \<Rightarrow> Comment option" where
  "canonical s fid p = map_option (heap s) (cache_lookup s fid p)"

definition cached_addrs :: "state \<Rightarrow> addr set" where
  "cached_addrs s = {a. \<exists>fid p. cache_lookup s fid p = Some a}"

text \<open>What a caller sees of a result: the value of the returned object.\<close>

definition returned :: "(error + addr option) \<times> state \<Rightarrow> error + Comment option" where
  "returned rs =
     (case fst rs of Inl e \<Rightarrow> Inl e | Inr a \<Rightarrow> Inr (map_option (heap (snd rs)) a))"

text \<open>
  The invariant of the store: cached objects have been allocated, no key has been
  parsed twice, and every key that has been parsed is in the cache.
\<close>

definition wf_state :: "state \<Rightarrow> bool" where
  "wf_state s =
     ((\<forall>fid p a. cache_lookup s fid p = Some a \<longrightarrow> a < nxt s) \<and>
      distinct (parses s) \<and>
      (\<forall>fid p. (fid, p) \<in> set (parses s) \<longrightarrow> cache_lookup s fid p \<noteq> None))"

definition warnings_of :: "log_entry list \<Rightarrow> string list" where
  "warnings_of l = concat (map (\<lambda>e. case e of Warn m d \<Rightarrow> [m] | Error m d \<Rightarrow> []) l)"

definition errors_of :: "log_entry list \<Rightarrow> string list" where
  "errors_of l = concat (map (\<lambda>e. case e of Warn m d \<Rightarrow> [] | Error m d \<Rightarrow> [m]) l)"

subsection \<open>A concrete setting\<close>

text \<open>
  A small instance of the collaborators, on which the theorems below are exercised: the
  lexer cuts the range out of the text, and the parser knows five blocks.
\<close>

definition demo_lex :: "string \<Rightarrow> int \<Rightarrow> int \<Rightarrow> string" where
  "demo_lex txt p e = take (nat (e - p)) (drop (nat p) txt)"

definition demo_parse :: "string \<Rightarrow> CommentParserConfig \<Rightarrow> Comment \<times> string list" where
  "demo_parse toks config =
     (if toks = ''/** @packageDocumentation */'' then
        (\<lparr>summary = [], tags = [], modifiers = {''@packageDocumentation''}\<rparr>, [])
      else if toks = ''/** @enum Colors */'' then
        (\<lparr>summary = [],
          tags = [\<lparr>tag_name = ''@enum'', ident = None, content = [''Colors'']\<rparr>],
          modifiers = {}\<rparr>, [])
      else if toks = ''/** @param x one */'' then
        (\<lparr>summary = [],
          tags = [\<lparr>tag_name = ''@param'', ident = Some ''x'', content = [''one'']\<rparr>],
          modifiers = {}\<rparr>, [])
      else if toks = ''/** @template T,U two @bogus */'' then
        (\<lparr>summary = [],
          tags = [\<lparr>tag_name = ''@template'', ident = Some ''T'', content = [''two'']\<rparr>],
          modifiers = {}\<rparr>, [''Encountered an unknown block tag @bogus''])
      else (\<lparr>summary = [toks], tags = [], modifiers = {}\<rparr>, []))"

definition module_file :: SourceFile where
  "module_file = \<lparr>file_id = 1, fileName = ''mod.ts'', text = ''/** @packageDocumentation */''\<rparr>"

definition plain_file :: SourceFile where
  "plain_file = \<lparr>file_id = 2, fileName = ''plain.ts'', text = ''/** Plain. */''\<rparr>"

definition enum_file :: SourceFile where
  "enum_file = \<lparr>file_id = 3, fileName = ''enum.js'', text = ''/** @enum Colors */''\<rparr>"

definition param_file :: SourceFile where
  "param_file = \<lparr>file_id = 4, fileName = ''param.js'', text = ''/** @param x one */''\<rparr>"

definition template_file :: SourceFile where
  "template_file =
     \<lparr>file_id = 5, fileName = ''tmpl.js'', text = ''/** @template T,U two @bogus */''\<rparr>"

definition line_file :: SourceFile where
  "line_file = \<lparr>file_id = 6, fileName = ''line.ts'', text = ''// a line comment''\<rparr>"

definition whole :: "CommentKind \<Rightarrow> SourceFile \<Rightarrow> CommentRange" where
  "whole k f = \<lparr>kind = k, pos = 0, endpos = int (length (text f))\<rparr>"

definition demo_discover ::
  "Symbol \<Rightarrow> ReflectionKind \<Rightarrow> (SourceFile \<times> CommentRange) option \<times> log_entry list" where
  "demo_discover symbol rkind =
     (if symbol_name symbol = ''mod'' then
        (Some (module_file, whole MultiLineCommentTrivia module_file), [])
      else if symbol_name symbol = ''plain'' then
        (Some (plain_file, whole MultiLineCommentTrivia plain_file), [])
      else (None, []))"

definition demo_env :: "string env" where
  "demo_env =
     \<lparr>discoverComment = demo_discover,
      discoverSignatureComment = (\<lambda>d. None),
      lexBlockComment = demo_lex,
      parseComment = demo_parse,
      getLineAndCharacterOfPosition = (\<lambda>f p. 0),
      nicePath = (\<lambda>p. p)\<rparr>"

definition demo_config :: CommentParserConfig where
  "demo_config =
     \<lparr>blockTags = {''@enum'', ''@param'', ''@template''}, inlineTags = {},
      modifierTags = {''@packageDocumentation''}\<rparr>"

definition jsdoc_node :: "SourceFile \<Rightarrow> Node" where
  "jsdoc_node f = \<lparr>node_kind = SK_JSDoc, node_pos = 0, node_end = int (length (text f))\<rparr>"

definition demo_declaration :: "SourceFile \<Rightarrow> string \<Rightarrow> JSDocShape \<Rightarrow> JSDocDeclaration" where
  "demo_declaration f tn sh =
     \<lparr>sourceFile = f, ancestors = [jsdoc_node f], tagName = tn, shape = sh\<rparr>"

definition source_file_node :: Node where
  "source_file_node = \<lparr>node_kind = SK_SourceFile, node_pos = 0, node_end = 28\<rparr>"

definition class_node :: Node where
  "class_node = \<lparr>node_kind = SK_Other 260, node_pos = 13, node_end = 40\<rparr>"

definition demo_symbol :: "string \<Rightarrow> Node list option \<Rightarrow> Symbol" where
  "demo_symbol n ds = \<lparr>symbol_name = n, declarations = ds\<rparr>"

text \<open>The state after the block comment that fills a file has been resolved once.\<close>

definition after_block :: "SourceFile \<Rightarrow> state" where
  "after_block f =
     snd (getCommentWithCache demo_env (Some (f, whole MultiLineCommentTrivia f)) demo_config
            init_state)"

text \<open>What the parser returns for a range of a file.\<close>

definition parse_result :: "'tok env \<Rightarrow> SourceFile \<Rightarrow> CommentRange \<Rightarrow> CommentParserConfig \<Rightarrow> Comment \<times> string list" where
  "parse_result env f r cfg =
     parseComment env (lexBlockComment env (text f) (pos r) (endpos r)) cfg"





section \<open>The shared core, case by case\<close>

lemma core_none: "getCommentWithCache env None cfg s = (Inr None, s)"
  by (simp add: getCommentWithCache_def)

lemma core_hit:
  assumes "cache_lookup s (file_id f) (pos r) = Some c"
  shows "getCommentWithCache env (Some (f, r)) cfg s =
           (Inr (Some (nxt s)), s\<lparr>heap := (heap s)(nxt s := heap s c), nxt := Suc (nxt s)\<rparr>)"
  using assms
  by (auto simp add: getCommentWithCache_def cache_lookup_def clone_def alloc_def
           split: option.splits)

lemma core_miss_block:
  assumes "cache_lookup s (file_id f) (pos r) = None" "kind r = MultiLineCommentTrivia"
  shows "getCommentWithCache env (Some (f, r)) cfg s =
           (Inr (Some (Suc (nxt s))),
            s\<lparr>heap := (heap s)(nxt s := fst (parse_result env f r cfg),
                                Suc (nxt s) := fst (parse_result env f r cfg)),
              nxt := Suc (Suc (nxt s)),
              commentCache := (commentCache s)(file_id f \<mapsto>
                 (case commentCache s (file_id f) of Some m \<Rightarrow> m | None \<Rightarrow> Map.empty)
                   (pos r \<mapsto> nxt s)),
              log := log s @ map (\<lambda>w. Warn (warning_text env f
                        (getLineAndCharacterOfPosition env f (pos r) + 1) w) None)
                      (snd (parse_result env f r cfg)),
              parses := parses s @ [(file_id f, pos r)]\<rparr>)"
  using assms
  by (auto simp add: getCommentWithCache_def cache_lookup_def clone_def alloc_def parse_result_def
           split: option.splits prod.splits)

lemma core_miss_line:
  assumes "cache_lookup s (file_id f) (pos r) = None" "kind r = SingleLineCommentTrivia"
  shows "getCommentWithCache env (Some (f, r)) cfg s = (Inl (Thrown ''GERRIT FIX ME''), s)"
  using assms
  by (auto simp add: getCommentWithCache_def cache_lookup_def split: option.splits)


lemma core_cases:
  obtains (hit) c where "cache_lookup s (file_id f) (pos r) = Some c"
  | (block) "cache_lookup s (file_id f) (pos r) = None" "kind r = MultiLineCommentTrivia"
  | (line) "cache_lookup s (file_id f) (pos r) = None" "kind r = SingleLineCommentTrivia"
  by (cases "cache_lookup s (file_id f) (pos r)"; cases "kind r") auto

lemma cache_lookup_heap_upd [simp]:
  "cache_lookup (s\<lparr>heap := h\<rparr>) = cache_lookup s"
  "cache_lookup (s\<lparr>nxt := n\<rparr>) = cache_lookup s"
  "cache_lookup (s\<lparr>log := l\<rparr>) = cache_lookup s"
  "cache_lookup (s\<lparr>parses := ps\<rparr>) = cache_lookup s"
  by (simp_all add: cache_lookup_def fun_eq_iff)


lemma block_facts:
  assumes "cache_lookup s (file_id f) (pos r) = None" "kind r = MultiLineCommentTrivia"
    and "getCommentWithCache env (Some (f, r)) cfg s = (res, s')"
  shows "res = Inr (Some (Suc (nxt s)))"
    and "nxt s' = Suc (Suc (nxt s))"
    and "cache_lookup s' fid p =
           (if fid = file_id f \<and> p = pos r then Some (nxt s) else cache_lookup s fid p)"
    and "heap s' = (heap s)(nxt s := fst (parse_result env f r cfg),
                          Suc (nxt s) := fst (parse_result env f r cfg))"
    and "log s' = log s @ map (\<lambda>w. Warn (warning_text env f
                        (getLineAndCharacterOfPosition env f (pos r) + 1) w) None)
                      (snd (parse_result env f r cfg))"
    and "parses s' = parses s @ [(file_id f, pos r)]"
    and "commentCache s' = (commentCache s)(file_id f \<mapsto>
           (case commentCache s (file_id f) of Some m \<Rightarrow> m | None \<Rightarrow> Map.empty)
             (pos r \<mapsto> nxt s))"
  using assms(1,3) unfolding core_miss_block [OF assms(1,2)]
  by (auto simp: cache_lookup_def split: option.splits if_splits)

lemma hit_facts:
  assumes "cache_lookup s (file_id f) (pos r) = Some c"
    and "getCommentWithCache env (Some (f, r)) cfg s = (res, s')"
  shows "res = Inr (Some (nxt s))"
    and "nxt s' = Suc (nxt s)"
    and "cache_lookup s' = cache_lookup s"
    and "heap s' = (heap s)(nxt s := heap s c)"
    and "log s' = log s"
    and "parses s' = parses s"
    and "commentCache s' = commentCache s"
  using assms(2) unfolding core_hit [OF assms(1)]
  by auto

lemma core_wf:
  assumes "wf_state s" "getCommentWithCache env d cfg s = (res, s')"
  shows "wf_state s'"
proof (cases d)
  case None
  with assms show ?thesis by (simp add: core_none)
next
  case (Some fr)
  obtain f r where fr: "fr = (f, r)" by (cases fr)
  note run = assms(2) [unfolded Some fr]
  show ?thesis
  proof (cases rule: core_cases [of s f r])
    case (hit c)
    from assms(1) show ?thesis
      unfolding wf_state_def hit_facts(2,3,6) [OF hit run]
      by (auto simp: less_Suc_eq)
  next
    case block
    have new: "(file_id f, pos r) \<notin> set (parses s)"
      using assms(1) block(1) by (force simp: wf_state_def)
    from assms(1) new show ?thesis
      unfolding wf_state_def block_facts(2,3,6) [OF block run]
      by (auto simp: less_Suc_eq)
  next
    case line
    with assms run show ?thesis by (simp add: core_miss_line)
  qed
qed

lemma core_success:
  assumes "getCommentWithCache env (Some (f, r)) cfg s = (Inr (Some a), s')"
  shows "\<exists>b. cache_lookup s' (file_id f) (pos r) = Some b \<and> heap s' a = heap s' b"
    and "nxt s \<le> a" and "a < nxt s'"
    and "nxt s' = Suc a"
proof -
  have "(\<exists>b. cache_lookup s' (file_id f) (pos r) = Some b \<and> heap s' a = heap s' b) \<and>
        nxt s \<le> a \<and> a < nxt s' \<and> nxt s' = Suc a"
  proof (cases rule: core_cases [of s f r])
    case (hit c)
    from hit_facts [OF hit assms] hit show ?thesis by auto
  next
    case block
    from block_facts [OF block assms] show ?thesis by auto
  next
    case line
    with assms show ?thesis by (simp add: core_miss_line)
  qed
  then show "\<exists>b. cache_lookup s' (file_id f) (pos r) = Some b \<and> heap s' a = heap s' b"
    and "nxt s \<le> a" and "a < nxt s'" and "nxt s' = Suc a" by auto
qed

lemma count_list_distinct: "distinct xs \<Longrightarrow> count_list xs x \<le> 1"
  by (induction xs) auto

lemma wf_init: "wf_state init_state"
  by (simp add: wf_state_def init_state_def cache_lookup_def)







lemma core_init_block:
  assumes "kind r = MultiLineCommentTrivia"
  shows "fst (getCommentWithCache env (Some (f, r)) cfg init_state) = Inr (Some 1)"
proof -
  have miss: "cache_lookup init_state (file_id f) (pos r) = None"
    by (simp add: cache_lookup_def init_state_def)
  from block_facts(1) [OF miss assms prod.collapse [symmetric]] show ?thesis
    by (simp add: init_state_def)
qed

lemma kind_whole [simp]: "kind (whole k f) = k"
  by (simp add: whole_def)

lemma core_parses_le:
  assumes "getCommentWithCache env d cfg s = (res, s')"
  shows "length (parses s') \<le> Suc (length (parses s))"
proof (cases d)
  case None
  with assms show ?thesis by (simp add: core_none)
next
  case (Some fr)
  obtain f r where fr: "fr = (f, r)" by (cases fr)
  note run = assms [unfolded Some fr]
  show ?thesis
  proof (cases rule: core_cases [of s f r])
    case (hit c)
    from hit_facts(6) [OF hit run] show ?thesis by simp
  next
    case block
    from block_facts(6) [OF block run] show ?thesis by simp
  next
    case line
    with run show ?thesis by (simp add: core_miss_line)
  qed
qed

lemma demo_first:
  "getCommentWithCache demo_env (Some (f, whole MultiLineCommentTrivia f)) demo_config init_state =
     (Inr (Some 1), after_block f)"
  by (simp add: prod_eq_iff core_init_block after_block_def)

lemma demo_lex_whole: "demo_lex (text f) 0 (int (length (text f))) = text f"
  by (simp add: demo_lex_def)

lemma after_block_facts:
  "heap (after_block f) 0 = fst (demo_parse (text f) demo_config)"
  "heap (after_block f) 1 = fst (demo_parse (text f) demo_config)"
  "nxt (after_block f) = 2"
  "cache_lookup (after_block f) fid p = (if fid = file_id f \<and> p = 0 then Some 0 else None)"
  "parses (after_block f) = [(file_id f, 0)]"
  "log (after_block f) =
     map (\<lambda>w. Warn (w @ '' in comment at '' @ fileName f @ '':1.'') None)
       (snd (demo_parse (text f) demo_config))"
proof -
  have miss: "cache_lookup init_state (file_id f) (pos (whole MultiLineCommentTrivia f)) = None"
    by (simp add: cache_lookup_def init_state_def)
  have pr: "parse_result demo_env f (whole MultiLineCommentTrivia f) demo_config =
              demo_parse (text f) demo_config"
    by (simp add: parse_result_def demo_env_def whole_def demo_lex_whole)
  have one: "string_of_nat (Suc 0) = ''1''"
    by (simp add: string_of_nat.simps digit_def)
  have pw: "pos (whole MultiLineCommentTrivia f) = 0" by (simp add: whole_def)
  note F = block_facts [OF miss kind_whole demo_first]
  show "heap (after_block f) 0 = fst (demo_parse (text f) demo_config)"
    "heap (after_block f) 1 = fst (demo_parse (text f) demo_config)"
    "nxt (after_block f) = 2"
    "parses (after_block f) = [(file_id f, 0)]"
    by (simp_all add: F pr pw init_state_def)
  show "cache_lookup (after_block f) fid p = (if fid = file_id f \<and> p = 0 then Some 0 else None)"
    unfolding F(3) by (simp add: pw init_state_def cache_lookup_def)
  show "log (after_block f) =
     map (\<lambda>w. Warn (w @ '' in comment at '' @ fileName f @ '':1.'') None)
       (snd (demo_parse (text f) demo_config))"
    unfolding F(5) pr by (simp add: pw init_state_def warning_text_def demo_env_def one)
qed

lemma log_init: "init_state\<lparr>log := log init_state @ []\<rparr> = init_state"
  by (simp add: init_state_def)

lemma demo_discover_mod:
  "discoverComment demo_env (demo_symbol ''mod'' ds) k =
     (Some (module_file, whole MultiLineCommentTrivia module_file), [])"
  by (simp add: demo_env_def demo_discover_def demo_symbol_def)

lemma demo_first_log:
  "getCommentWithCache demo_env (Some (f, whole MultiLineCommentTrivia f)) demo_config
     (init_state\<lparr>log := log init_state @ []\<rparr>) = (Inr (Some 1), after_block f)"
  by (simp add: log_init demo_first)

lemma module_marker: "is_module_comment (heap (after_block module_file) 1)"
  unfolding after_block_facts(2)
  by (simp add: is_module_comment_def hasModifier_def demo_parse_def module_file_def)

section \<open>The sub-tag extractor, case by case\<close>

lemma core_block_total:
  assumes "getCommentWithCache env (Some (f, block_range parent)) cfg s = (r, s1)"
  shows "\<exists>c. r = Inr (Some c) \<and> canonical s1 (file_id f) (node_pos parent) = Some (heap s1 c) \<and>
             nxt s1 = Suc c"
proof -
  have k: "kind (block_range parent) = MultiLineCommentTrivia"
    and p: "pos (block_range parent) = node_pos parent"
    by (simp_all add: block_range_def)
  have "\<exists>c. r = Inr (Some c)"
  proof (cases rule: core_cases [of s f "block_range parent"])
    case (hit c)
    from hit_facts(1) [OF hit assms] show ?thesis by simp
  next
    case block
    from block_facts(1) [OF block assms] show ?thesis by simp
  next
    case line
    with k show ?thesis by simp
  qed
  then obtain c where c: "r = Inr (Some c)" by blast
  from core_success(1,4) [OF assms [unfolded c]] c p show ?thesis
    by (auto simp: canonical_def)
qed

lemma core_log:
  assumes "getCommentWithCache env (Some (f, r)) cfg s = (Inr (Some a), s1)"
  shows "log s1 = log s @
           (case cache_lookup s (file_id f) (pos r) of
              Some b \<Rightarrow> []
            | None \<Rightarrow>
                map (\<lambda>w. Warn (warning_text env f
                               (getLineAndCharacterOfPosition env f (pos r) + 1) w) None)
                  (snd (parse_result env f r cfg)))"
proof (cases rule: core_cases [of s f r])
  case (hit c)
  from hit_facts(5) [OF hit assms] hit show ?thesis by simp
next
  case block
  from block_facts(5) [OF block assms] block show ?thesis by simp
next
  case line
  with assms show ?thesis by (simp add: core_miss_line)
qed

lemma core_canonical_mono:
  assumes "wf_state s" "getCommentWithCache env d cfg s = (res, s1)"
    and "canonical s fid p = Some v"
  shows "canonical s1 fid p = Some v"
proof (cases d)
  case None
  with assms show ?thesis by (simp add: core_none)
next
  case (Some fr)
  obtain f r where fr: "fr = (f, r)" by (cases fr)
  note run = assms(2) [unfolded Some fr]
  from assms(3) obtain b where b: "cache_lookup s fid p = Some b" "heap s b = v"
    by (auto simp: canonical_def)
  with assms(1) have lt: "b < nxt s" by (auto simp: wf_state_def)
  show ?thesis
  proof (cases rule: core_cases [of s f r])
    case (hit c)
    from hit_facts(3,4) [OF hit run] b lt show ?thesis
      by (auto simp: canonical_def)
  next
    case block
    note F = block_facts [OF block run]
    from F(3) [of fid p] F(4) b lt block show ?thesis
      by (auto simp: canonical_def)
  next
    case line
    with run assms(3) show ?thesis by (simp add: core_miss_line)
  qed
qed

lemma jsdoc_unfold:
  assumes "findJSDoc (ancestors d) = Inr parent"
    and "getCommentWithCache env (Some (sourceFile d, block_range parent)) cfg s =
           (Inr (Some c), s1)"
  shows "getJsDocComment env d cfg s =
     (if shape d = JSDocEnumTag then
        (Inr (Some (nxt s1)),
         s1\<lparr>heap := (heap s1)
                 (nxt s1 := new_Comment (map_option content (getTag (heap s1 c) ''@enum''))),
            nxt := Suc (nxt s1)\<rparr>)
      else if ambiguous_template (shape d) then
        (Inr None, s1\<lparr>log := log s1 @ [Warn template_warning (Some d)]\<rparr>)
      else
        (case targetName (shape d) of
           Inl e \<Rightarrow> (Inl e, s1)
         | Inr None \<Rightarrow> (Inr None, s1)
         | Inr (Some name) \<Rightarrow>
             if name = [] then (Inr None, s1)
             else
               (case getIdentifiedTag (heap s1 c) name (CHR ''@'' # tagName d) of
                  None \<Rightarrow>
                    (Inr None, s1\<lparr>log := log s1 @ [Error (bug_report name) (Some d)]\<rparr>)
                | Some t \<Rightarrow>
                    (Inr (Some (nxt s1)),
                     s1\<lparr>heap := (heap s1)(nxt s1 := new_Comment (Some (content t))),
                        nxt := Suc (nxt s1)\<rparr>))))"
  by (simp add: getJsDocComment_def assms alloc_def split: sum.splits option.splits)

lemma canonical_upd [simp]:
  "canonical (s\<lparr>log := l\<rparr>) = canonical s"
  by (simp add: canonical_def fun_eq_iff)

lemma wf_state_log [simp]: "wf_state (s\<lparr>log := l\<rparr>) = wf_state s"
  by (simp add: wf_state_def)

lemma block_range_jsdoc: "block_range (jsdoc_node f) = whole MultiLineCommentTrivia f"
  by (simp add: block_range_def jsdoc_node_def whole_def)

lemma demo_findJSDoc: "findJSDoc (ancestors (demo_declaration f tn sh)) = Inr (jsdoc_node f)"
  by (simp add: demo_declaration_def jsdoc_node_def isJSDoc_def)

lemma demo_declaration_simps [simp]:
  "sourceFile (demo_declaration f tn sh) = f"
  "tagName (demo_declaration f tn sh) = tn"
  "shape (demo_declaration f tn sh) = sh"
  by (simp_all add: demo_declaration_def)

lemma demo_jsdoc_core:
  "getCommentWithCache demo_env
     (Some (sourceFile (demo_declaration f tn sh), block_range (jsdoc_node f))) demo_config
     init_state = (Inr (Some 1), after_block f)"
  by (simp add: block_range_jsdoc demo_first)

lemma demo_canonical:
  "canonical (after_block f) (file_id (sourceFile (demo_declaration f tn sh)))
     (node_pos (jsdoc_node f)) = Some (fst (demo_parse (text f) demo_config))"
  by (simp add: canonical_def after_block_facts jsdoc_node_def)

lemma find_filter_single: "filter P xs = [t] \<Longrightarrow> find P xs = Some t"
  by (induction xs) (auto split: if_splits)

lemma enum_extract:
  assumes "shape d = JSDocEnumTag" and "findJSDoc (ancestors d) = Inr parent"
    and "getCommentWithCache env (Some (sourceFile d, block_range parent)) cfg s = (r, s1)"
    and "canonical s1 (file_id (sourceFile d)) (node_pos parent) = Some blk"
  shows "getJsDocComment env d cfg s =
           (Inr (Some (nxt s1)),
            s1\<lparr>heap := (heap s1)
                    (nxt s1 := new_Comment (map_option content (getTag blk ''@enum''))),
               nxt := Suc (nxt s1)\<rparr>)"
proof -
  from core_block_total [OF assms(3)] assms(4) obtain c where
    c: "r = Inr (Some c)" "heap s1 c = blk" by auto
  show ?thesis
    unfolding jsdoc_unfold [OF assms(2) assms(3) [unfolded c(1)]]
    using assms(1) c(2) by simp
qed

lemma alloc_keeps:
  assumes "wf_state s1"
  shows "wf_state (s1\<lparr>heap := (heap s1)(nxt s1 := v), nxt := Suc (nxt s1)\<rparr>)"
    and "canonical (s1\<lparr>heap := (heap s1)(nxt s1 := v), nxt := Suc (nxt s1)\<rparr>) = canonical s1"
    and "nxt s1 \<notin> cached_addrs (s1\<lparr>heap := (heap s1)(nxt s1 := v), nxt := Suc (nxt s1)\<rparr>)"
proof -
  show "wf_state (s1\<lparr>heap := (heap s1)(nxt s1 := v), nxt := Suc (nxt s1)\<rparr>)"
    using assms by (auto simp: wf_state_def less_Suc_eq)
  have "b \<noteq> nxt s1" if "cache_lookup s1 fid p = Some b" for fid p b
    using assms that by (auto simp: wf_state_def)
  then show "canonical (s1\<lparr>heap := (heap s1)(nxt s1 := v), nxt := Suc (nxt s1)\<rparr>) = canonical s1"
    by (auto simp: canonical_def fun_eq_iff map_option_case split: option.splits)
  show "nxt s1 \<notin> cached_addrs (s1\<lparr>heap := (heap s1)(nxt s1 := v), nxt := Suc (nxt s1)\<rparr>)"
    using assms by (auto simp: cached_addrs_def wf_state_def)
qed









section \<open>The cache\<close>

text \<open>
  C1. In a state that satisfies the invariant, let a resolution of the range \<open>r\<close> of the
  file \<open>f\<close> return a comment. Then it has called the parser at most once, and a second
  resolution of the same file at the same start offset returns a comment too, calls the
  parser not at all, and returns an object distinct from the first with an equal value,
  which is the canonical value stored for the key; the key has been parsed at most once
  in all. The hit depends on the file and the
  offset only, so the theorem holds whatever the text, the end and the kind of the second
  range are, and in particular when the raw text is the same.
\<close>

theorem idempotent_parsing:
  assumes "wf_state s"
    and "getCommentWithCache env (Some (f, r)) cfg s = (Inr (Some a1), s1)"
    and "file_id f' = file_id f" and "pos r' = pos r"
  shows "length (parses s1) \<le> Suc (length (parses s)) \<and>
         (\<exists>a2 s2. getCommentWithCache env (Some (f', r')) cfg s1 = (Inr (Some a2), s2) \<and>
           parses s2 = parses s1 \<and>
           heap s2 a2 = heap s2 a1 \<and>
           a2 \<noteq> a1 \<and>
           canonical s2 (file_id f) (pos r) = Some (heap s2 a2) \<and>
           count_list (parses s2) (file_id f, pos r) \<le> 1)"
proof -
  from core_success [OF assms(2)] obtain b where
    b: "cache_lookup s1 (file_id f) (pos r) = Some b" "heap s1 a1 = heap s1 b"
    and a1: "a1 < nxt s1" by auto
  have hit: "cache_lookup s1 (file_id f') (pos r') = Some b"
    using b(1) assms(3,4) by simp
  obtain res s2 where run: "getCommentWithCache env (Some (f', r')) cfg s1 = (res, s2)"
    by (cases "getCommentWithCache env (Some (f', r')) cfg s1")
  note facts = hit_facts [OF hit run]
  have "wf_state s1" using assms(1,2) by (rule core_wf)
  then have "wf_state s2" using run by (rule core_wf)
  then have "distinct (parses s2)" by (simp add: wf_state_def)
  then have "count_list (parses s2) (file_id f, pos r) \<le> 1" by (rule count_list_distinct)
  moreover have "heap s2 (nxt s1) = heap s2 a1"
    using facts(4) b(2) a1 by auto
  moreover have "nxt s1 \<noteq> a1" using a1 by simp
  moreover have "canonical s2 (file_id f) (pos r) = Some (heap s2 (nxt s1))"
    using core_success(1) [OF run [unfolded facts(1)]] assms(3,4)
    by (auto simp: canonical_def)
  ultimately show ?thesis
    using run facts(1,6) core_parses_le [OF assms(2)] by auto
qed

theorem idempotent_parsing_witness:
  "wf_state init_state \<and>
   getCommentWithCache demo_env (Some (module_file, whole MultiLineCommentTrivia module_file))
     demo_config init_state = (Inr (Some 1), after_block module_file) \<and>
   length (parses (after_block module_file)) \<le> Suc (length (parses init_state)) \<and>
   (\<exists>a2 s2.
      getCommentWithCache demo_env (Some (module_file, whole MultiLineCommentTrivia module_file))
        demo_config (after_block module_file) = (Inr (Some a2), s2) \<and>
      parses s2 = parses (after_block module_file) \<and>
      heap s2 a2 = heap s2 1 \<and> a2 \<noteq> 1 \<and>
      canonical s2 (file_id module_file) (pos (whole MultiLineCommentTrivia module_file)) =
        Some (heap s2 a2) \<and>
      count_list (parses s2)
        (file_id module_file, pos (whole MultiLineCommentTrivia module_file)) \<le> 1)"
  using idempotent_parsing [OF wf_init demo_first refl refl, of module_file] wf_init demo_first
  by blast




section \<open>Line comments\<close>

text \<open>
  C3. A range of line style that is not in the cache makes the shared core throw the bare
  string GERRIT FIX ME: the value thrown is neither an error object nor a result that
  names the unsupported comment style, and the state is left as it was. Evaluated on the
  file \<open>line_file\<close> in the initial state.
\<close>

theorem line_comment_throws_placeholder:
  "getCommentWithCache demo_env
     (Some (line_file, whole SingleLineCommentTrivia line_file)) demo_config init_state =
   (Inl (Thrown ''GERRIT FIX ME''), init_state)"
  by (simp add: getCommentWithCache_def init_state_def line_file_def whole_def)

section \<open>The applicability filter\<close>

text \<open>
  C4. Let the declarations of a symbol include a whole source file, and let the shared
  core resolve what discovery found for the symbol to the comment \<open>a\<close>. Then symbol
  resolution returns \<open>a\<close> if the comment has the modifier @packageDocumentation or a tag
  @module, and nothing if it has neither. (A discovered range of line style that is not
  in the cache resolves to no comment: the core throws, which is C3.)
\<close>

theorem module_attribution:
  assumes "someIsSourceFile symbol"
    and "discoverComment env symbol k = (d, logged)"
    and "getCommentWithCache env d cfg (s\<lparr>log := log s @ logged\<rparr>) = (Inr (Some a), s1)"
  shows "getComment env symbol k cfg s =
           (if is_module_comment (heap s1 a) then Inr (Some a) else Inr None, s1)"
  using assms
  by (simp add: getComment_def module_check_applies_def nonmodule_check_applies_def
        carries_module_marker_def)

theorem module_attribution_witness:
  "someIsSourceFile (demo_symbol ''mod'' (Some [source_file_node])) \<and>
   getComment demo_env (demo_symbol ''mod'' (Some [source_file_node])) 0 demo_config init_state =
     (Inr (Some 1), after_block module_file)"
proof -
  have src: "someIsSourceFile (demo_symbol ''mod'' (Some [source_file_node]))"
    by (simp add: someIsSourceFile_def demo_symbol_def source_file_node_def isSourceFile_def)
  from module_attribution [OF src demo_discover_mod demo_first_log] src module_marker
  show ?thesis by simp
qed

text \<open>
  C5. Let the shared core resolve what discovery found for a symbol to the comment \<open>a\<close>.
  If no declaration of the symbol is a whole source file and the comment has the modifier
  @packageDocumentation or a tag @module, symbol resolution returns nothing. And whatever
  the symbol is, exactly one of the guards of the two checks holds for this comment.
\<close>

theorem cross_attribution_rejection:
  assumes "discoverComment env symbol k = (d, logged)"
    and "getCommentWithCache env d cfg (s\<lparr>log := log s @ logged\<rparr>) = (Inr (Some a), s1)"
  shows "(\<not> someIsSourceFile symbol \<and> is_module_comment (heap s1 a) \<longrightarrow>
            getComment env symbol k cfg s = (Inr None, s1)) \<and>
         (module_check_applies symbol (Some a) \<noteq> nonmodule_check_applies symbol (Some a))"
  using assms
  by (simp add: getComment_def module_check_applies_def nonmodule_check_applies_def
        carries_module_marker_def)

theorem cross_attribution_rejection_witness:
  "\<not> someIsSourceFile (demo_symbol ''mod'' (Some [class_node])) \<and>
   is_module_comment (heap (after_block module_file) 1) \<and>
   getComment demo_env (demo_symbol ''mod'' (Some [class_node])) 0 demo_config init_state =
     (Inr None, after_block module_file) \<and>
   \<not> module_check_applies (demo_symbol ''mod'' (Some [class_node])) (Some 1) \<and>
   nonmodule_check_applies (demo_symbol ''mod'' (Some [class_node])) (Some 1)"
proof -
  have src: "\<not> someIsSourceFile (demo_symbol ''mod'' (Some [class_node]))"
    by (simp add: someIsSourceFile_def demo_symbol_def class_node_def isSourceFile_def)
  from cross_attribution_rejection [OF demo_discover_mod demo_first_log] src module_marker
  show ?thesis by (simp add: module_check_applies_def)
qed

text \<open>
  C10. Let the declarations of a symbol be absent, or be a list without a whole source
  file, and let the shared core resolve what discovery found to the comment \<open>a\<close>. Then
  the guard of the module check is false and the guard of the other check is true, and
  symbol resolution returns nothing if the comment has the modifier @packageDocumentation
  or a tag @module, and \<open>a\<close> otherwise.
\<close>

theorem absent_declarations_not_module:
  assumes "declarations symbol = None \<or>
           (\<exists>ds. declarations symbol = Some ds \<and> \<not> list_ex isSourceFile ds)"
    and "discoverComment env symbol k = (d, logged)"
    and "getCommentWithCache env d cfg (s\<lparr>log := log s @ logged\<rparr>) = (Inr (Some a), s1)"
  shows "\<not> module_check_applies symbol (Some a) \<and>
         nonmodule_check_applies symbol (Some a) \<and>
         getComment env symbol k cfg s =
           (if is_module_comment (heap s1 a) then Inr None else Inr (Some a), s1)"
proof -
  from assms(1) have "\<not> someIsSourceFile symbol"
    by (auto simp: someIsSourceFile_def)
  with assms(2,3) show ?thesis
    by (simp add: getComment_def module_check_applies_def nonmodule_check_applies_def
          carries_module_marker_def)
qed

theorem absent_declarations_not_module_witness:
  "declarations (demo_symbol ''mod'' None) = None \<and>
   \<not> module_check_applies (demo_symbol ''mod'' None) (Some 1) \<and>
   nonmodule_check_applies (demo_symbol ''mod'' None) (Some 1) \<and>
   is_module_comment (heap (after_block module_file) 1) \<and>
   getComment demo_env (demo_symbol ''mod'' None) 0 demo_config init_state =
     (Inr None, after_block module_file)"
proof -
  have none: "declarations (demo_symbol ''mod'' None) = None"
    by (simp add: demo_symbol_def)
  from absent_declarations_not_module [OF disjI1 [OF none] demo_discover_mod demo_first_log]
    none module_marker
  show ?thesis by simp
qed

section \<open>The sub-tag extractor\<close>

text \<open>
  C6. Let a declaration that is no enum tag and no ambiguous template tag have the target
  name \<open>name\<close>, not empty, and let the parsed block that encloses it have no tag with
  both this name and the token of the declaration's tag. Then the extractor reports the
  error that asks for a bug report through the logger's \<open>error\<close>, once, and returns
  nothing; it throws nothing. The cache is the one the resolution of the block left: the
  invariant holds, and every canonical value of the state before the call is still there.
\<close>

theorem missing_tag_reports_bug:
  assumes "wf_state s"
    and "findJSDoc (ancestors d) = Inr parent"
    and "getCommentWithCache env (Some (sourceFile d, block_range parent)) cfg s = (r, s1)"
    and "canonical s1 (file_id (sourceFile d)) (node_pos parent) = Some blk"
    and "shape d \<noteq> JSDocEnumTag" and "\<not> ambiguous_template (shape d)"
    and "targetName (shape d) = Inr (Some name)" and "name \<noteq> []"
    and "getIdentifiedTag blk name (CHR ''@'' # tagName d) = None"
  shows "\<exists>s2. getJsDocComment env d cfg s = (Inr None, s2) \<and>
              log s2 = log s1 @ [Error (bug_report name) (Some d)] \<and>
              commentCache s2 = commentCache s1 \<and> canonical s2 = canonical s1 \<and>
              wf_state s2 \<and>
              (\<forall>fid p v. canonical s fid p = Some v \<longrightarrow> canonical s2 fid p = Some v)"
proof -
  from core_block_total [OF assms(3)] assms(4) obtain c where
    c: "r = Inr (Some c)" "heap s1 c = blk" by auto
  note run = assms(3) [unfolded c(1)]
  have wf1: "wf_state s1" using assms(1) run by (rule core_wf)
  have mono: "canonical s1 fid p = Some v" if "canonical s fid p = Some v" for fid p v
    using assms(1) run that by (rule core_canonical_mono)
  show ?thesis
    unfolding jsdoc_unfold [OF assms(2) run]
    using assms(5-9) c(2) wf1 mono by simp
qed

theorem missing_tag_reports_bug_witness:
  "wf_state init_state \<and>
   getIdentifiedTag (fst (demo_parse (text param_file) demo_config)) ''y'' ''@param'' = None \<and>
   (\<exists>s2. getJsDocComment demo_env
            (demo_declaration param_file ''param'' (JSDocNamedTag (Some ''y''))) demo_config
            init_state = (Inr None, s2) \<and>
         log s2 = log (after_block param_file) @
            [Error (bug_report ''y'')
               (Some (demo_declaration param_file ''param'' (JSDocNamedTag (Some ''y''))))] \<and>
         canonical s2 = canonical (after_block param_file) \<and> wf_state s2)"
proof -
  let ?d = "demo_declaration param_file ''param'' (JSDocNamedTag (Some ''y''))"
  have lack: "getIdentifiedTag (fst (demo_parse (text param_file) demo_config)) ''y''
                (CHR ''@'' # tagName ?d) = None"
    by (simp add: getIdentifiedTag_def demo_parse_def param_file_def)
  have sh: "shape ?d \<noteq> JSDocEnumTag" "\<not> ambiguous_template (shape ?d)"
    "targetName (shape ?d) = Inr (Some ''y'')" "''y'' \<noteq> []"
    by (simp_all add: ambiguous_template_def targetName_def)
  from missing_tag_reports_bug [OF wf_init demo_findJSDoc demo_jsdoc_core demo_canonical sh lack]
    wf_init lack
  show ?thesis by auto
qed

text \<open>
  C7, as the code has it. For a template tag, the resolution of the enclosing block
  returns a comment. If the tag has an inline comment and lists more than one type
  parameter, the extractor returns nothing and appends one warning of its own to the log,
  the one about multiple type parameters; before it stand the warnings of the parser when
  this call is the first to parse the block, and none when the block was in the cache.
  Otherwise, and so whenever there is no inline comment, the name looked up is that of
  the first type parameter listed: a tag found gives a new comment of its content, a tag
  missing the bug report, an empty name nothing.
\<close>

theorem ambiguous_template_extraction:
  assumes "findJSDoc (ancestors d) = Inr parent"
    and "getCommentWithCache env (Some (sourceFile d, block_range parent)) cfg s = (r, s1)"
    and "shape d = JSDocTemplateTag cm tps"
  shows "\<exists>c. r = Inr (Some c) \<and>
          (truthy cm \<and> 1 < length tps \<longrightarrow>
             getJsDocComment env d cfg s =
               (Inr None, s1\<lparr>log := log s1 @ [Warn template_warning (Some d)]\<rparr>) \<and>
             log s1 = log s @
               (case cache_lookup s (file_id (sourceFile d)) (node_pos parent) of
                  Some b \<Rightarrow> []
                | None \<Rightarrow>
                    map (\<lambda>w. Warn (warning_text env (sourceFile d)
                                   (getLineAndCharacterOfPosition env (sourceFile d)
                                      (node_pos parent) + 1) w) None)
                      (snd (parse_result env (sourceFile d) (block_range parent) cfg)))) \<and>
          (\<not> (truthy cm \<and> 1 < length tps) \<longrightarrow>
             getJsDocComment env d cfg s =
               (case tps of
                  [] \<Rightarrow> (Inl TypeError, s1)
                | tp # rest \<Rightarrow>
                    if tp = [] then (Inr None, s1)
                    else
                      (case getIdentifiedTag (heap s1 c) tp (CHR ''@'' # tagName d) of
                         None \<Rightarrow>
                           (Inr None, s1\<lparr>log := log s1 @ [Error (bug_report tp) (Some d)]\<rparr>)
                       | Some t \<Rightarrow>
                           (Inr (Some (nxt s1)),
                            s1\<lparr>heap := (heap s1)(nxt s1 := new_Comment (Some (content t))),
                               nxt := Suc (nxt s1)\<rparr>))))"
proof -
  from core_block_total [OF assms(2)] obtain c where c: "r = Inr (Some c)" by blast
  note run = assms(2) [unfolded c]
  have p: "pos (block_range parent) = node_pos parent" by (simp add: block_range_def)
  note lg = core_log [OF run, unfolded p]
  show ?thesis
    unfolding jsdoc_unfold [OF assms(1) run]
    using c lg assms(3)
    by (auto simp: ambiguous_template_def targetName_def split: list.splits)
qed

theorem ambiguous_template_extraction_witness:
  "truthy (CommentString ''two'') \<and> 1 < length [''T'', ''U''] \<and>
   cache_lookup (after_block template_file) (file_id template_file)
     (node_pos (jsdoc_node template_file)) = Some 0 \<and>
   getJsDocComment demo_env
     (demo_declaration template_file ''template''
        (JSDocTemplateTag (CommentString ''two'') [''T'', ''U''])) demo_config
     (after_block template_file) =
   (Inr None,
    (snd (getCommentWithCache demo_env
            (Some (template_file, whole MultiLineCommentTrivia template_file)) demo_config
            (after_block template_file)))
    \<lparr>log := log (after_block template_file) @
        [Warn template_warning
           (Some (demo_declaration template_file ''template''
                    (JSDocTemplateTag (CommentString ''two'') [''T'', ''U''])))]\<rparr>) \<and>
   \<not> truthy NoComment \<and>
   returned (getJsDocComment demo_env
     (demo_declaration template_file ''template'' (JSDocTemplateTag NoComment [''T'', ''U'']))
     demo_config init_state) = Inr (Some (new_Comment (Some [''two''])))"
proof -
  let ?d = "demo_declaration template_file ''template''
              (JSDocTemplateTag (CommentString ''two'') [''T'', ''U''])"
  let ?e = "demo_declaration template_file ''template'' (JSDocTemplateTag NoComment [''T'', ''U''])"
  let ?s = "after_block template_file"
  have run: "getCommentWithCache demo_env
               (Some (sourceFile ?d, block_range (jsdoc_node template_file))) demo_config ?s =
             (fst (getCommentWithCache demo_env
                     (Some (template_file, whole MultiLineCommentTrivia template_file))
                     demo_config ?s),
              snd (getCommentWithCache demo_env
                     (Some (template_file, whole MultiLineCommentTrivia template_file))
                     demo_config ?s))"
    by (simp add: block_range_jsdoc)
  have hit: "cache_lookup ?s (file_id template_file) (node_pos (jsdoc_node template_file)) =
               Some 0"
    by (simp add: after_block_facts jsdoc_node_def)
  have sh: "shape ?d = JSDocTemplateTag (CommentString ''two'') [''T'', ''U'']" by simp
  have she: "shape ?e = JSDocTemplateTag NoComment [''T'', ''U'']" by simp
  have tag: "getIdentifiedTag (heap ?s 1) ''T'' ''@template'' =
               Some \<lparr>tag_name = ''@template'', ident = Some ''T'', content = [''two'']\<rparr>"
    unfolding after_block_facts(2)
    by (simp add: getIdentifiedTag_def demo_parse_def template_file_def)
  have first: "getJsDocComment demo_env ?d demo_config ?s =
     (Inr None,
      (snd (getCommentWithCache demo_env
              (Some (template_file, whole MultiLineCommentTrivia template_file)) demo_config ?s))
      \<lparr>log := log ?s @ [Warn template_warning (Some ?d)]\<rparr>)"
    using ambiguous_template_extraction [OF demo_findJSDoc run sh] hit by auto
  have second: "returned (getJsDocComment demo_env ?e demo_config init_state) =
                  Inr (Some (new_Comment (Some [''two''])))"
    using ambiguous_template_extraction [OF demo_findJSDoc demo_jsdoc_core she] tag
    by (auto simp: returned_def)
  from first second hit show ?thesis by simp
qed

text \<open>
  C7 as stated fails where the parser warns: on the first extraction from the block of
  \<open>template_file\<close>, whose parse raises a warning, the log holds two warnings after one
  call for a template tag with an inline comment and two type parameters.
\<close>

theorem ambiguous_template_two_warnings:
  "ambiguous_template (JSDocTemplateTag (CommentString ''two'') [''T'', ''U'']) \<and>
   log init_state = [] \<and>
   fst (getJsDocComment demo_env
          (demo_declaration template_file ''template''
             (JSDocTemplateTag (CommentString ''two'') [''T'', ''U''])) demo_config
          init_state) = Inr None \<and>
   warnings_of (log (snd (getJsDocComment demo_env
          (demo_declaration template_file ''template''
             (JSDocTemplateTag (CommentString ''two'') [''T'', ''U''])) demo_config
          init_state))) =
     [''Encountered an unknown block tag @bogus in comment at tmpl.js:1.'', template_warning]"
proof -
  let ?d = "demo_declaration template_file ''template''
              (JSDocTemplateTag (CommentString ''two'') [''T'', ''U''])"
  have amb: "ambiguous_template (shape ?d)"
    by (simp add: ambiguous_template_def)
  have lg: "log (after_block template_file) =
              [Warn ''Encountered an unknown block tag @bogus in comment at tmpl.js:1.'' None]"
    unfolding after_block_facts(6)
    by (simp add: demo_parse_def template_file_def)
  have "getJsDocComment demo_env ?d demo_config init_state =
          (Inr None, (after_block template_file)
             \<lparr>log := log (after_block template_file) @ [Warn template_warning (Some ?d)]\<rparr>)"
    unfolding jsdoc_unfold [OF demo_findJSDoc demo_jsdoc_core]
    using amb by simp
  with amb lg show ?thesis
    by (simp add: warnings_of_def init_state_def)
qed

text \<open>
  C8. In a state that satisfies the invariant, let the parsed block that encloses an enum
  tag have exactly one tag @enum, \<open>t\<close>. Then the extractor returns a new Comment object,
  not one of the cache, whose value is the comment built from the content of \<open>t\<close>, after
  at most one call of the parser. An extraction for an enum tag of the same block that
  follows returns another new object with the same value and calls the parser not at
  all; the block has been parsed at most once, and the invariant and the canonical value
  of the block hold again afterwards, so the same is true of every further member.
\<close>

theorem enum_members_share_tag:
  assumes "wf_state s"
    and "shape d = JSDocEnumTag" and "findJSDoc (ancestors d) = Inr parent"
    and "getCommentWithCache env (Some (sourceFile d, block_range parent)) cfg s = (r, s1)"
    and "canonical s1 (file_id (sourceFile d)) (node_pos parent) = Some blk"
    and "filter (\<lambda>t. tag_name t = ''@enum'') (tags blk) = [t]"
    and "shape d' = JSDocEnumTag" and "findJSDoc (ancestors d') = Inr parent'"
    and "file_id (sourceFile d') = file_id (sourceFile d)"
    and "node_pos parent' = node_pos parent"
  shows "\<exists>a s2. getJsDocComment env d cfg s = (Inr (Some a), s2) \<and>
           heap s2 a = new_Comment (Some (content t)) \<and>
           a \<notin> cached_addrs s2 \<and>
           length (parses s2) \<le> Suc (length (parses s)) \<and>
           (\<exists>a' s3. getJsDocComment env d' cfg s2 = (Inr (Some a'), s3) \<and>
              heap s3 a' = new_Comment (Some (content t)) \<and>
              a' \<noteq> a \<and> heap s3 a = heap s2 a \<and>
              parses s3 = parses s2 \<and>
              count_list (parses s3) (file_id (sourceFile d), node_pos parent) \<le> 1 \<and>
              wf_state s3 \<and>
              canonical s3 (file_id (sourceFile d)) (node_pos parent) = Some blk)"
proof -
  let ?key = "canonical s1 (file_id (sourceFile d)) (node_pos parent)"
  let ?v = "new_Comment (Some (content t))"
  have tag: "getTag blk ''@enum'' = Some t"
    using assms(6) by (simp add: getTag_def find_filter_single)
  define s2 where "s2 = s1\<lparr>heap := (heap s1)(nxt s1 := ?v), nxt := Suc (nxt s1)\<rparr>"
  have first: "getJsDocComment env d cfg s = (Inr (Some (nxt s1)), s2)"
    using enum_extract [OF assms(2,3,4,5)] tag by (simp add: s2_def)
  have wf1: "wf_state s1" using assms(1,4) by (rule core_wf)
  note K = alloc_keeps [OF wf1, of ?v, folded s2_def]
  have canon2: "canonical s2 (file_id (sourceFile d)) (node_pos parent) = Some blk"
    using K(2) assms(5) by simp
  have parses2: "parses s2 = parses s1" by (simp add: s2_def)
  have len: "length (parses s2) \<le> Suc (length (parses s))"
    using core_parses_le [OF assms(4)] parses2 by simp
  obtain r' s1' where
    run': "getCommentWithCache env (Some (sourceFile d', block_range parent')) cfg s2 = (r', s1')"
    by (cases "getCommentWithCache env (Some (sourceFile d', block_range parent')) cfg s2")
  from canon2 obtain b where
    hit: "cache_lookup s2 (file_id (sourceFile d')) (pos (block_range parent')) = Some b"
    by (auto simp: canonical_def block_range_def assms(9,10))
  note H = hit_facts [OF hit run']
  have wf1': "wf_state s1'" using K(1) run' by (rule core_wf)
  have canon1': "canonical s1' (file_id (sourceFile d')) (node_pos parent') = Some blk"
    using core_canonical_mono [OF K(1) run' canon2] by (simp add: assms(9,10))
  define s3 where "s3 = s1'\<lparr>heap := (heap s1')(nxt s1' := ?v), nxt := Suc (nxt s1')\<rparr>"
  have second: "getJsDocComment env d' cfg s2 = (Inr (Some (nxt s1')), s3)"
    using enum_extract [OF assms(7,8) run' canon1'] tag by (simp add: s3_def)
  note K' = alloc_keeps [OF wf1', of ?v, folded s3_def]
  have nx: "nxt s2 = Suc (nxt s1)" "nxt s1' = Suc (nxt s2)"
    using H(2) by (simp_all add: s2_def)
  have "heap s2 (nxt s1) = ?v" by (simp add: s2_def)
  moreover have "heap s3 (nxt s1') = ?v" by (simp add: s3_def)
  moreover have "heap s3 (nxt s1) = heap s2 (nxt s1)"
    using nx H(4) by (simp add: s3_def)
  moreover have "parses s3 = parses s2" using H(6) by (simp add: s3_def)
  moreover have "count_list (parses s3) (file_id (sourceFile d), node_pos parent) \<le> 1"
  proof (rule count_list_distinct)
    show "distinct (parses s3)" using K'(1) by (simp add: wf_state_def)
  qed
  moreover have "canonical s3 (file_id (sourceFile d)) (node_pos parent) = Some blk"
    using K'(2) canon1' by (simp add: assms(9,10))
  moreover have "nxt s1' \<noteq> nxt s1" using nx by simp
  ultimately show ?thesis
    using first second K(3) K'(1) len by auto
qed

theorem enum_members_share_tag_witness:
  "wf_state init_state \<and>
   filter (\<lambda>t. tag_name t = ''@enum'') (tags (fst (demo_parse (text enum_file) demo_config))) =
     [\<lparr>tag_name = ''@enum'', ident = None, content = [''Colors'']\<rparr>] \<and>
   (\<exists>a s2. getJsDocComment demo_env (demo_declaration enum_file ''enum'' JSDocEnumTag)
              demo_config init_state = (Inr (Some a), s2) \<and>
      heap s2 a = new_Comment (Some [''Colors'']) \<and>
      (\<exists>a' s3. getJsDocComment demo_env (demo_declaration enum_file ''enum'' JSDocEnumTag)
                  demo_config s2 = (Inr (Some a'), s3) \<and>
         heap s3 a' = new_Comment (Some [''Colors'']) \<and> a' \<noteq> a \<and>
         parses s3 = parses s2))"
proof -
  let ?d = "demo_declaration enum_file ''enum'' JSDocEnumTag"
  let ?t = "\<lparr>tag_name = ''@enum'', ident = None, content = [''Colors'']\<rparr>"
  have one: "filter (\<lambda>t. tag_name t = ''@enum'')
               (tags (fst (demo_parse (text enum_file) demo_config))) = [?t]"
    by (simp add: demo_parse_def enum_file_def)
  have sh: "shape ?d = JSDocEnumTag" by simp
  from enum_members_share_tag
         [OF wf_init sh demo_findJSDoc demo_jsdoc_core demo_canonical one sh demo_findJSDoc
             refl refl]
  obtain a s2 a' s3 where
    "getJsDocComment demo_env ?d demo_config init_state = (Inr (Some a), s2)"
    "heap s2 a = new_Comment (Some (content ?t))"
    "getJsDocComment demo_env ?d demo_config s2 = (Inr (Some a'), s3)"
    "heap s3 a' = new_Comment (Some (content ?t))" "a' \<noteq> a" "parses s3 = parses s2"
    by blast
  with wf_init one show ?thesis by auto
qed

text \<open>
  C9. Let the parsed block that encloses an enum tag have no tag @enum at all. Then the
  extractor still returns a Comment object, built from absent content, and logs nothing:
  neither the result nothing nor the bug-report error of the general case occurs.
\<close>

theorem enum_without_tag_returns_comment:
  assumes "shape d = JSDocEnumTag" and "findJSDoc (ancestors d) = Inr parent"
    and "getCommentWithCache env (Some (sourceFile d, block_range parent)) cfg s = (r, s1)"
    and "canonical s1 (file_id (sourceFile d)) (node_pos parent) = Some blk"
    and "getTag blk ''@enum'' = None"
  shows "\<exists>a s2. getJsDocComment env d cfg s = (Inr (Some a), s2) \<and>
           heap s2 a = new_Comment None \<and> log s2 = log s1 \<and>
           errors_of (log s2) = errors_of (log s1)"
  using enum_extract [OF assms(1,2,3,4)] assms(5) by simp

theorem enum_without_tag_returns_comment_witness:
  "getTag (fst (demo_parse (text plain_file) demo_config)) ''@enum'' = None \<and>
   (\<exists>a s2. getJsDocComment demo_env (demo_declaration plain_file ''enum'' JSDocEnumTag)
              demo_config init_state = (Inr (Some a), s2) \<and>
      heap s2 a = new_Comment None \<and> errors_of (log s2) = [])"
proof -
  let ?d = "demo_declaration plain_file ''enum'' JSDocEnumTag"
  have none: "getTag (fst (demo_parse (text plain_file) demo_config)) ''@enum'' = None"
    by (simp add: getTag_def demo_parse_def plain_file_def)
  have sh: "shape ?d = JSDocEnumTag" by simp
  have lg: "errors_of (log (after_block plain_file)) = []"
    unfolding after_block_facts(6)
    by (simp add: errors_of_def demo_parse_def plain_file_def)
  from enum_without_tag_returns_comment
         [OF sh demo_findJSDoc demo_jsdoc_core demo_canonical none] none lg
  show ?thesis by auto
qed

end
